theory Spec2Isabelle
  imports Complex_Main
begin

section \<open>Strings\<close>

text \<open>
  A JavaScript string is a sequence of UTF-16 code units. The fraction glyphs and the
  en-dash the program handles lie outside Latin-1, so a code unit is a natural number
  and a string a list of them; \<open>str\<close> embeds an ASCII literal.
\<close>

type_synonym code_unit = nat
type_synonym jsstring = "code_unit list"

definition str :: "string \<Rightarrow> jsstring" where
  "str s = map of_char s"

text \<open>WhiteSpace and LineTerminator of ECMAScript: what \<open>\s\<close> matches and \<open>trim\<close> strips.\<close>

definition isWhiteSpace :: "code_unit \<Rightarrow> bool" where
  "isWhiteSpace c =
     (c \<in> set [9, 10, 11, 12, 13, 32, 160, 5760, 8232, 8233, 8239, 8287, 12288, 65279]
      \<or> (8192 \<le> c \<and> c \<le> 8202))"

definition isLineTerminator :: "code_unit \<Rightarrow> bool" where
  "isLineTerminator c = (c \<in> set [10, 13, 8232, 8233])"

definition isDigit :: "code_unit \<Rightarrow> bool" where
  "isDigit c = (48 \<le> c \<and> c \<le> 57)"

text \<open>The word characters of \<open>\b\<close>: \<open>[A-Za-z0-9_]\<close>.\<close>

definition isWordChar :: "code_unit \<Rightarrow> bool" where
  "isWordChar c = ((97 \<le> c \<and> c \<le> 122) \<or> (65 \<le> c \<and> c \<le> 90) \<or> isDigit c \<or> c = 95)"

definition trimStart :: "jsstring \<Rightarrow> jsstring" where
  "trimStart s = dropWhile isWhiteSpace s"

definition trim :: "jsstring \<Rightarrow> jsstring" where
  "trim s = rev (dropWhile isWhiteSpace (rev (dropWhile isWhiteSpace s)))"

text \<open>
  \<open>s.replace(pat, rep)\<close> with a string pattern: the first occurrence of \<open>pat\<close> is
  replaced (the replacement strings of the program hold no \<open>$\<close> pattern).
\<close>

fun replace_substr :: "jsstring \<Rightarrow> jsstring \<Rightarrow> jsstring \<Rightarrow> jsstring" where
  "replace_substr pat rep [] = (if pat = [] then rep else [])"
| "replace_substr pat rep (c # cs) =
     (if take (length pat) (c # cs) = pat then rep @ drop (length pat) (c # cs)
      else c # replace_substr pat rep cs)"

section \<open>Regular expressions\<close>

text \<open>
  The backtracking matcher of ECMAScript, in the continuation-passing form of the
  language specification: a matcher takes a state and a continuation and returns the
  first success of the continuation, trying greedy choices first. The state holds the
  code unit before the current position (none at the start of the input), the rest of
  the input and the captures so far, latest first.
\<close>

datatype atom =
    Lit code_unit
  | Digit
  | Space
  | AnyChar
  | OneOf "code_unit list"
  | Range code_unit code_unit

datatype regex =
    Atom atom
  | Eps
  | Bol
  | Eol
  | WordB
  | Seq regex regex
  | Alt regex regex
  | Star regex
  | Plus regex
  | Opt regex
  | Grp nat regex

record mstate =
  prev :: "code_unit option"
  rest :: jsstring
  caps :: "(nat \<times> jsstring) list"

text \<open>
  Canonicalize of the \<open>i\<close> flag (no \<open>u\<close> flag): a code unit is compared through its
  upper case, and a code unit outside ASCII never becomes an ASCII one. The patterns of
  the program hold ASCII letters, digits, punctuation and the en-dash only, for which
  the upper case of the ASCII letters decides every comparison.
\<close>

definition canonicalize :: "bool \<Rightarrow> code_unit \<Rightarrow> code_unit" where
  "canonicalize ic c = (if ic \<and> 97 \<le> c \<and> c \<le> 122 then c - 32 else c)"

fun atom_matches :: "bool \<Rightarrow> atom \<Rightarrow> code_unit \<Rightarrow> bool" where
  "atom_matches ic (Lit a) c = (canonicalize ic a = canonicalize ic c)"
| "atom_matches ic Digit c = isDigit c"
| "atom_matches ic Space c = isWhiteSpace c"
| "atom_matches ic AnyChar c = (\<not> isLineTerminator c)"
| "atom_matches ic (OneOf as) c = list_ex (\<lambda>a. canonicalize ic a = canonicalize ic c) as"
| "atom_matches ic (Range lo hi) c = (lo \<le> c \<and> c \<le> hi)"

definition isWordOpt :: "code_unit option \<Rightarrow> bool" where
  "isWordOpt p = (case p of None \<Rightarrow> False | Some c \<Rightarrow> isWordChar c)"

definition nextUnit :: "jsstring \<Rightarrow> code_unit option" where
  "nextUnit s = (case s of [] \<Rightarrow> None | c # _ \<Rightarrow> Some c)"

text \<open>
  A greedy repetition: one more iteration first, then the continuation. An iteration
  that consumes nothing is rejected, as RepeatMatcher does, so the length of the rest
  of the input bounds the number of iterations.
\<close>

primrec repeat_k ::
  "(mstate \<Rightarrow> (mstate \<Rightarrow> mstate option) \<Rightarrow> mstate option) \<Rightarrow> nat \<Rightarrow> mstate \<Rightarrow>
   (mstate \<Rightarrow> mstate option) \<Rightarrow> mstate option" where
  "repeat_k f 0 st k = k st"
| "repeat_k f (Suc n) st k =
     (case f st (\<lambda>st'. if length (rest st') < length (rest st) then repeat_k f n st' k else None) of
        Some r \<Rightarrow> Some r
      | None \<Rightarrow> k st)"

primrec rmatch ::
  "bool \<Rightarrow> regex \<Rightarrow> mstate \<Rightarrow> (mstate \<Rightarrow> mstate option) \<Rightarrow> mstate option" where
  "rmatch ic (Atom a) st k =
     (case rest st of
        [] \<Rightarrow> None
      | c # cs \<Rightarrow> if atom_matches ic a c then k (st\<lparr>prev := Some c, rest := cs\<rparr>) else None)"
| "rmatch ic Eps st k = k st"
| "rmatch ic Bol st k = (if prev st = None then k st else None)"
| "rmatch ic Eol st k = (if rest st = [] then k st else None)"
| "rmatch ic WordB st k =
     (if isWordOpt (prev st) \<noteq> isWordOpt (nextUnit (rest st)) then k st else None)"
| "rmatch ic (Seq r1 r2) st k = rmatch ic r1 st (\<lambda>st'. rmatch ic r2 st' k)"
| "rmatch ic (Alt r1 r2) st k =
     (case rmatch ic r1 st k of Some r \<Rightarrow> Some r | None \<Rightarrow> rmatch ic r2 st k)"
| "rmatch ic (Star r) st k = repeat_k (rmatch ic r) (length (rest st)) st k"
| "rmatch ic (Plus r) st k =
     rmatch ic r st (\<lambda>st'. repeat_k (rmatch ic r) (length (rest st')) st' k)"
| "rmatch ic (Opt r) st k =
     (case rmatch ic r st (\<lambda>st'. if length (rest st') < length (rest st) then k st' else None) of
        Some r \<Rightarrow> Some r
      | None \<Rightarrow> k st)"
| "rmatch ic (Grp n r) st k =
     rmatch ic r st
       (\<lambda>st'. k (st'\<lparr>caps := (n, take (length (rest st) - length (rest st')) (rest st)) # caps st'\<rparr>))"

definition seqs :: "regex list \<Rightarrow> regex" where
  "seqs rs = foldr Seq rs Eps"

definition lits :: "string \<Rightarrow> regex" where
  "lits s = seqs (map (\<lambda>c. Atom (Lit (of_char c))) s)"

text \<open>
  The result of a match: the text before it, the matched text, the text after it and
  the captures. \<open>grp m n\<close> is \<open>m[n]\<close>, \<open>None\<close> where JavaScript has undefined.
\<close>

record rmatch_result =
  before :: jsstring
  matched :: jsstring
  after :: jsstring
  groups :: "(nat \<times> jsstring) list"

definition grp :: "rmatch_result \<Rightarrow> nat \<Rightarrow> jsstring option" where
  "grp m n = map_of (groups m) n"

definition match_here ::
  "bool \<Rightarrow> regex \<Rightarrow> jsstring \<Rightarrow> code_unit option \<Rightarrow> jsstring \<Rightarrow> rmatch_result option" where
  "match_here ic r bef p s =
     (case rmatch ic r \<lparr>prev = p, rest = s, caps = []\<rparr> Some of
        None \<Rightarrow> None
      | Some st \<Rightarrow>
          Some \<lparr>before = bef, matched = take (length s - length (rest st)) s,
                after = rest st, groups = caps st\<rparr>)"

text \<open>\<open>s.match(re)\<close> and \<open>re.exec(s)\<close> without the \<open>g\<close> flag: the leftmost match.\<close>

primrec search_from ::
  "bool \<Rightarrow> regex \<Rightarrow> jsstring \<Rightarrow> code_unit option \<Rightarrow> jsstring \<Rightarrow> rmatch_result option" where
  "search_from ic r bef p [] = match_here ic r bef p []"
| "search_from ic r bef p (c # cs) =
     (case match_here ic r bef p (c # cs) of
        Some m \<Rightarrow> Some m
      | None \<Rightarrow> search_from ic r (bef @ [c]) (Some c) cs)"

definition re_match :: "bool \<Rightarrow> regex \<Rightarrow> jsstring \<Rightarrow> rmatch_result option" where
  "re_match ic r s = search_from ic r [] None s"

definition re_test :: "bool \<Rightarrow> regex \<Rightarrow> jsstring \<Rightarrow> bool" where
  "re_test ic r s = (re_match ic r s \<noteq> None)"

text \<open>\<open>s.replace(re, f)\<close> without the \<open>g\<close> flag: the leftmost match is replaced.\<close>

definition re_replace ::
  "bool \<Rightarrow> regex \<Rightarrow> (rmatch_result \<Rightarrow> jsstring) \<Rightarrow> jsstring \<Rightarrow> jsstring" where
  "re_replace ic r f s =
     (case re_match ic r s of None \<Rightarrow> s | Some m \<Rightarrow> before m @ f m @ after m)"

text \<open>
  \<open>s.replace(re, f)\<close> with the \<open>g\<close> flag, the callback threading a state of its own
  (the counter of \<open>scaleServingsLabel\<close>): the input is scanned from the left, a match
  is replaced and the scan goes on after it; after an empty match it moves on by one
  code unit. \<open>skip\<close> counts the code units of the last match still to pass.
\<close>

primrec replace_all_from ::
  "bool \<Rightarrow> regex \<Rightarrow> ('a \<Rightarrow> rmatch_result \<Rightarrow> jsstring \<times> 'a) \<Rightarrow> 'a \<Rightarrow> nat \<Rightarrow>
   code_unit option \<Rightarrow> jsstring \<Rightarrow> jsstring \<times> 'a" where
  "replace_all_from ic r f acc skip p [] =
     (if skip > 0 then ([], acc)
      else (case match_here ic r [] p [] of
              None \<Rightarrow> ([], acc)
            | Some m \<Rightarrow> f acc m))"
| "replace_all_from ic r f acc skip p (c # cs) =
     (if skip > 0 then replace_all_from ic r f acc (skip - 1) (Some c) cs
      else (case match_here ic r [] p (c # cs) of
              None \<Rightarrow>
                (let (out, acc') = replace_all_from ic r f acc 0 (Some c) cs in (c # out, acc'))
            | Some m \<Rightarrow>
                (let (rep, acc1) = f acc m in
                 if matched m = []
                 then (let (out, acc') = replace_all_from ic r f acc1 0 (Some c) cs
                       in (rep @ c # out, acc'))
                 else (let (out, acc') =
                         replace_all_from ic r f acc1 (length (matched m) - 1) (Some c) cs
                       in (rep @ out, acc')))))"

definition re_replace_all ::
  "bool \<Rightarrow> regex \<Rightarrow> (rmatch_result \<Rightarrow> jsstring) \<Rightarrow> jsstring \<Rightarrow> jsstring" where
  "re_replace_all ic r f s = fst (replace_all_from ic r (\<lambda>u m. (f m, u)) () 0 None s)"

section \<open>Numbers\<close>

text \<open>
  A Number is a finite value, an infinity or NaN. A finite value is idealised as the
  rational it denotes: rounding to 53 significant bits and the sign of zero are not
  modelled, overflow to Infinity is (a result of magnitude at least
  \<open>2^1024 - 2^970\<close> rounds to an infinity).
\<close>

datatype number = Fin rat | PosInf | NegInf | NaN

definition overflow_bound :: rat where
  "overflow_bound = 2 ^ 1024 - 2 ^ 970"

definition to_number :: "rat \<Rightarrow> number" where
  "to_number r =
     (if overflow_bound \<le> r then PosInf
      else if r \<le> - overflow_bound then NegInf
      else Fin r)"

fun isFinite :: "number \<Rightarrow> bool" where
  "isFinite (Fin _) = True"
| "isFinite _ = False"

fun nmul :: "number \<Rightarrow> number \<Rightarrow> number" where
  "nmul NaN _ = NaN"
| "nmul _ NaN = NaN"
| "nmul (Fin a) (Fin b) = to_number (a * b)"
| "nmul (Fin a) PosInf = (if a = 0 then NaN else if 0 < a then PosInf else NegInf)"
| "nmul (Fin a) NegInf = (if a = 0 then NaN else if 0 < a then NegInf else PosInf)"
| "nmul PosInf (Fin b) = (if b = 0 then NaN else if 0 < b then PosInf else NegInf)"
| "nmul NegInf (Fin b) = (if b = 0 then NaN else if 0 < b then NegInf else PosInf)"
| "nmul PosInf PosInf = PosInf"
| "nmul PosInf NegInf = NegInf"
| "nmul NegInf PosInf = NegInf"
| "nmul NegInf NegInf = PosInf"

fun nadd :: "number \<Rightarrow> number \<Rightarrow> number" where
  "nadd NaN _ = NaN"
| "nadd _ NaN = NaN"
| "nadd (Fin a) (Fin b) = to_number (a + b)"
| "nadd (Fin a) PosInf = PosInf"
| "nadd (Fin a) NegInf = NegInf"
| "nadd PosInf (Fin b) = PosInf"
| "nadd NegInf (Fin b) = NegInf"
| "nadd PosInf PosInf = PosInf"
| "nadd PosInf NegInf = NaN"
| "nadd NegInf PosInf = NaN"
| "nadd NegInf NegInf = NegInf"

text \<open>Division; a zero divisor is the positive zero, the sign of zero not being modelled.\<close>

fun ndiv :: "number \<Rightarrow> number \<Rightarrow> number" where
  "ndiv NaN _ = NaN"
| "ndiv _ NaN = NaN"
| "ndiv (Fin a) (Fin b) =
     (if b = 0 then (if a = 0 then NaN else if 0 < a then PosInf else NegInf)
      else to_number (a / b))"
| "ndiv (Fin a) PosInf = Fin 0"
| "ndiv (Fin a) NegInf = Fin 0"
| "ndiv PosInf (Fin b) = (if 0 \<le> b then PosInf else NegInf)"
| "ndiv NegInf (Fin b) = (if 0 \<le> b then NegInf else PosInf)"
| "ndiv PosInf PosInf = NaN"
| "ndiv PosInf NegInf = NaN"
| "ndiv NegInf PosInf = NaN"
| "ndiv NegInf NegInf = NaN"

text \<open>\<open>Math.round\<close> rounds to the nearest integer, a tie towards positive infinity.\<close>

definition Math_round :: "rat \<Rightarrow> int" where
  "Math_round x = \<lfloor>x + 1 / 2\<rfloor>"

subsection \<open>Number to string\<close>

text \<open>
  \<open>Number::toString\<close> of ECMAScript. For a positive \<open>x\<close>, \<open>magnitude x\<close> is the
  \<open>n\<close> with \<open>10^(n-1) \<le> x < 10^n\<close> and \<open>sig_digits\<close> the digits of the shortest
  \<open>s\<close> with \<open>s * 10^(n-k) = x\<close>. The digits are those of the exact value; they are
  cut after 20 fractional digits, which no value the program prints reaches.
\<close>

function magnitude :: "rat \<Rightarrow> int" where
  "magnitude x =
     (if 10 \<le> x then magnitude (x / 10) + 1
      else if 0 < x \<and> x < 1 then magnitude (x * 10) - 1
      else 1)"
  by pat_completeness auto
termination
proof (relation "measure (\<lambda>x. if 10 \<le> x then nat \<lceil>x\<rceil>
                              else if 0 < x \<and> x < 1 then nat \<lceil>1 / x\<rceil> else 0)")
  show "wf (measure (\<lambda>x::rat. if 10 \<le> x then nat \<lceil>x\<rceil>
                              else if 0 < x \<and> x < 1 then nat \<lceil>1 / x\<rceil> else 0))"
    by simp
next
  fix x :: rat
  assume a: "10 \<le> x"
  have "x / 10 \<le> x - 9" using a by simp
  then have "\<lceil>x / 10\<rceil> \<le> \<lceil>x - 9\<rceil>" by (rule ceiling_mono)
  also have "\<lceil>x - 9\<rceil> = \<lceil>x\<rceil> - 9" by simp
  finally have c: "\<lceil>x / 10\<rceil> < \<lceil>x\<rceil>" by simp
  have p: "0 < \<lceil>x\<rceil>" using a by (simp add: ceiling_less_iff less_ceiling_iff)
  show "(x / 10, x) \<in> measure (\<lambda>x. if 10 \<le> x then nat \<lceil>x\<rceil>
                              else if 0 < x \<and> x < 1 then nat \<lceil>1 / x\<rceil> else 0)"
    using a c p by auto
next
  fix x :: rat
  assume a: "\<not> 10 \<le> x" "0 < x \<and> x < 1"
  let ?y = "1 / x"
  have y1: "1 < ?y" using a by simp
  have p: "1 < \<lceil>?y\<rceil>" using y1 by (simp add: less_ceiling_iff)
  show "(x * 10, x) \<in> measure (\<lambda>x. if 10 \<le> x then nat \<lceil>x\<rceil>
                              else if 0 < x \<and> x < 1 then nat \<lceil>1 / x\<rceil> else 0)"
  proof (cases "x * 10 < 1")
    case True
    then have y10: "10 < ?y" using a by (simp add: field_simps)
    have e: "1 / (x * 10) = ?y / 10" by simp
    have "?y / 10 \<le> ?y - 9" using y10 by simp
    then have "\<lceil>?y / 10\<rceil> \<le> \<lceil>?y - 9\<rceil>" by (rule ceiling_mono)
    also have "\<lceil>?y - 9\<rceil> = \<lceil>?y\<rceil> - 9" by simp
    finally have "\<lceil>?y / 10\<rceil> < \<lceil>?y\<rceil>" by simp
    then have "\<lceil>1 / (x * 10)\<rceil> < \<lceil>?y\<rceil>" by (simp only: e)
    then show ?thesis using a True p by auto
  next
    case False
    then show ?thesis using a p by auto
  qed
qed

primrec sig_digits :: "nat \<Rightarrow> rat \<Rightarrow> int list" where
  "sig_digits 0 z = [\<lfloor>z\<rfloor>]"
| "sig_digits (Suc f) z =
     (let d = \<lfloor>z\<rfloor>; r = z - of_int d
      in if r = 0 then [d] else d # sig_digits f (r * 10))"

definition digit_char :: "int \<Rightarrow> code_unit" where
  "digit_char d = 48 + nat d"

function dec_digits :: "int \<Rightarrow> jsstring" where
  "dec_digits n =
     (if n < 10 then [digit_char n] else dec_digits (n div 10) @ [digit_char (n mod 10)])"
  by pat_completeness auto
termination
  by (relation "measure nat") auto

declare magnitude.simps [simp del] dec_digits.simps [simp del]

definition pos_to_string :: "rat \<Rightarrow> jsstring" where
  "pos_to_string x =
     (let n = magnitude x;
          z = (if 1 \<le> n then x / 10 ^ nat (n - 1) else x * 10 ^ nat (1 - n));
          ds = map digit_char (sig_digits (nat (max n 0) + 20) z);
          k = int (length ds)
      in if k \<le> n \<and> n \<le> 21 then ds @ replicate (nat (n - k)) 48
         else if 0 < n \<and> n \<le> 21 then take (nat n) ds @ [46] @ drop (nat n) ds
         else if - 6 < n \<and> n \<le> 0 then [48, 46] @ replicate (nat (- n)) 48 @ ds
         else (let e = n - 1;
                   ex = [101, (if e < 0 then 45 else 43)] @ dec_digits \<bar>e\<bar>
               in if k = 1 then ds @ ex else take 1 ds @ [46] @ drop 1 ds @ ex))"

fun ToString :: "number \<Rightarrow> jsstring" where
  "ToString NaN = str ''NaN''"
| "ToString PosInf = str ''Infinity''"
| "ToString NegInf = str ''-Infinity''"
| "ToString (Fin x) =
     (if x = 0 then [48]
      else if x < 0 then 45 # pos_to_string (- x)
      else pos_to_string x)"

definition int_to_string :: "int \<Rightarrow> jsstring" where
  "int_to_string n = ToString (Fin (of_int n))"

subsection \<open>String to number\<close>

text \<open>
  \<open>Number(s)\<close> on a decimal literal \<open>digits\<close> or \<open>digits.digits\<close>. The program calls it
  on captures of \<open>\d+\<close> and \<open>\d+(?:\.\d+)?\<close> only; on any other string this is NaN.
\<close>

definition digits_value :: "jsstring \<Rightarrow> int" where
  "digits_value ds = foldl (\<lambda>acc c. 10 * acc + (int c - 48)) 0 ds"

definition Number_of :: "jsstring \<Rightarrow> number" where
  "Number_of s =
     (let ip = takeWhile isDigit s; tl = dropWhile isDigit s
      in if ip = [] then NaN
         else (case tl of
                 [] \<Rightarrow> to_number (of_int (digits_value ip))
               | c # fp \<Rightarrow>
                   if c = 46 \<and> fp \<noteq> [] \<and> list_all isDigit fp
                   then to_number (of_int (digits_value ip)
                                   + of_int (digits_value fp) / 10 ^ length fp)
                   else NaN))"

section \<open>Quantity parsing and scaling (web client)\<close>

text \<open>
  The table of vulgar-fraction glyphs: U+00BC to U+00BE and U+2150 to U+215E, each with
  its ASCII form.
\<close>

definition UNICODE_FRACTIONS :: "(jsstring \<times> jsstring) list" where
  "UNICODE_FRACTIONS =
     [([188], str ''1/4''), ([189], str ''1/2''), ([190], str ''3/4''),
      ([8528], str ''1/7''), ([8529], str ''1/9''), ([8530], str ''1/10''),
      ([8531], str ''1/3''), ([8532], str ''2/3''), ([8533], str ''1/5''),
      ([8534], str ''2/5''), ([8535], str ''3/5''), ([8536], str ''4/5''),
      ([8537], str ''1/6''), ([8538], str ''5/6''), ([8539], str ''1/8''),
      ([8540], str ''3/8''), ([8541], str ''5/8''), ([8542], str ''7/8'')]"

text \<open>The class \<open>[...]\<close> of the glyphs, in the order of the source.\<close>

definition fraction_glyphs :: regex where
  "fraction_glyphs =
     Atom (OneOf [188, 189, 190, 8528, 8529, 8530, 8531, 8532, 8533, 8534, 8535, 8536,
                  8537, 8538, 8539, 8540, 8541, 8542])"

definition ws_run :: regex where
  "ws_run = Plus (Atom Space)"

definition collapse_ws :: "jsstring \<Rightarrow> jsstring" where
  "collapse_ws s = re_replace_all False ws_run (\<lambda>m. [32]) s"

definition normalizeFractions :: "jsstring \<Rightarrow> jsstring" where
  "normalizeFractions text =
     collapse_ws
       (re_replace_all False fraction_glyphs
          (\<lambda>m. [32] @ (case map_of UNICODE_FRACTIONS (matched m) of
                           Some f \<Rightarrow> f
                         | None \<Rightarrow> matched m) @ [32])
          text)"

text \<open>
  \<open>gcd\<close> is called on \<open>Math.round(frac * 8)\<close> and \<open>8\<close>, integers both; after
  \<open>Math.abs\<close> the operands of \<open>%\<close> are not negative, where it is \<open>mod\<close>.
\<close>

function gcd_loop :: "int \<Rightarrow> int \<Rightarrow> int" where
  "gcd_loop x y = (if y = 0 then x else gcd_loop y (x mod y))"
  by pat_completeness auto
termination
  by (relation "measure (\<lambda>(x, y). nat \<bar>y\<bar>)") (auto simp: abs_mod_less)

declare gcd_loop.simps [simp del]

definition gcd_js :: "int \<Rightarrow> int \<Rightarrow> int" where
  "gcd_js a b = (let x = gcd_loop \<bar>a\<bar> \<bar>b\<bar> in if x = 0 then 1 else x)"

text \<open>\<open>/\.0+$/\<close> and \<open>/(\.\d*[1-9])0+$/\<close>, which trim the zeros of the decimal.\<close>

definition zero_fraction_re :: regex where
  "zero_fraction_re = seqs [Atom (Lit 46), Plus (Atom (Lit 48)), Eol]"

definition trailing_zeros_re :: regex where
  "trailing_zeros_re =
     seqs [Grp 1 (seqs [Atom (Lit 46), Star (Atom Digit), Atom (Range 49 57)]),
           Plus (Atom (Lit 48)), Eol]"

definition group_or_empty :: "rmatch_result \<Rightarrow> nat \<Rightarrow> jsstring" where
  "group_or_empty m n = (case grp m n of None \<Rightarrow> [] | Some g \<Rightarrow> g)"

definition trim_decimal :: "jsstring \<Rightarrow> jsstring" where
  "trim_decimal s =
     re_replace False trailing_zeros_re (\<lambda>m. group_or_empty m 1)
       (re_replace False zero_fraction_re (\<lambda>m. []) s)"

definition formatQuantity :: "number \<Rightarrow> jsstring" where
  "formatQuantity value =
     (case value of
        Fin v \<Rightarrow>
          (let roundedInt = Math_round v in
           if \<bar>v - of_int roundedInt\<bar> < 1 / 10 ^ 9 then int_to_string roundedInt
           else
             (let eighth = of_int (Math_round (v * 8)) / 8 in
              if \<bar>v - eighth\<bar> < 2 / 100 then
                (let whole = \<lfloor>eighth + 1 / 10 ^ 9\<rfloor>;
                     frac = eighth - of_int whole;
                     num0 = Math_round (frac * 8);
                     den0 = 8
                 in if num0 = 0 then int_to_string whole
                    else
                      (let g = gcd_js num0 den0;
                           num = Fin (of_int num0 / of_int g);
                           den = Fin (of_int den0 / of_int g)
                       in if 0 < whole
                          then int_to_string whole @ [32] @ ToString num @ [47] @ ToString den
                          else ToString num @ [47] @ ToString den))
              else trim_decimal (ToString (Fin (of_int (Math_round (v * 100)) / 100)))))
      | _ \<Rightarrow> [])"

text \<open>
  The patterns of \<open>parseQuantityToken\<close>:
  \<open>/^(\d+)\s+(\d+)\s*\/\s*(\d+)\b/\<close>, \<open>/^(\d+)\s*\/\s*(\d+)\b/\<close> and
  \<open>/^(\d+(?:\.\d+)?)/\<close>.
\<close>

definition digits1 :: regex where
  "digits1 = Plus (Atom Digit)"

definition mixed_re :: regex where
  "mixed_re =
     seqs [Bol, Grp 1 digits1, Plus (Atom Space), Grp 2 digits1, Star (Atom Space),
           Atom (Lit 47), Star (Atom Space), Grp 3 digits1, WordB]"

definition frac_re :: regex where
  "frac_re =
     seqs [Bol, Grp 1 digits1, Star (Atom Space), Atom (Lit 47), Star (Atom Space),
           Grp 2 digits1, WordB]"

definition dec_re :: regex where
  "dec_re = seqs [Bol, Grp 1 (seqs [digits1, Opt (seqs [Atom (Lit 46), digits1])])]"

text \<open>\<open>Number(m[n])\<close>; the Number of undefined is NaN.\<close>

definition Number_group :: "rmatch_result \<Rightarrow> nat \<Rightarrow> number" where
  "Number_group m n = (case grp m n of None \<Rightarrow> NaN | Some g \<Rightarrow> Number_of g)"

text \<open>\<open>parseQuantityToken\<close>; the result \<open>None\<close> is \<open>null\<close>.\<close>

definition parse_mixed :: "jsstring \<Rightarrow> number option" where
  "parse_mixed s =
     (case re_match False mixed_re s of
        None \<Rightarrow> None
      | Some m \<Rightarrow>
          (let whole = Number_group m 1; num = Number_group m 2; den = Number_group m 3
           in if isFinite whole \<and> isFinite num \<and> isFinite den \<and> den \<noteq> Fin 0
              then Some (nadd whole (ndiv num den)) else None))"

definition parse_frac :: "jsstring \<Rightarrow> number option" where
  "parse_frac s =
     (case re_match False frac_re s of
        None \<Rightarrow> None
      | Some m \<Rightarrow>
          (let num = Number_group m 1; den = Number_group m 2
           in if isFinite num \<and> isFinite den \<and> den \<noteq> Fin 0
              then Some (ndiv num den) else None))"

definition parse_dec :: "jsstring \<Rightarrow> number option" where
  "parse_dec s =
     (case re_match False dec_re s of
        None \<Rightarrow> None
      | Some m \<Rightarrow> (let n = Number_group m 1 in if isFinite n then Some n else None))"

definition parseQuantityToken :: "jsstring \<Rightarrow> number option" where
  "parseQuantityToken token =
     (let s = trim (normalizeFractions token) in
      case parse_mixed s of
        Some v \<Rightarrow> Some v
      | None \<Rightarrow> (case parse_frac s of
                   Some v \<Rightarrow> Some v
                 | None \<Rightarrow> parse_dec s))"

text \<open>
  The pattern of \<open>scaleLeadingQuantity\<close>, built from
  \<open>qty = (?:\d+\s+\d+\/\d+|\d+\/\d+|\d+(?:\.\d+)?)\<close> as
  \<open>^(\s*)(qty)(\s*(?:-|U+2013|to)\s*(qty))?(.*)$\<close> with the flag \<open>i\<close>; the en-dash is written
  U+2013.
\<close>

definition qty :: regex where
  "qty =
     Alt (seqs [digits1, Plus (Atom Space), digits1, Atom (Lit 47), digits1])
       (Alt (seqs [digits1, Atom (Lit 47), digits1])
          (seqs [digits1, Opt (seqs [Atom (Lit 46), digits1])]))"

definition range_sep :: regex where
  "range_sep = Alt (Atom (Lit 45)) (Alt (Atom (Lit 8211)) (lits ''to''))"

definition scale_re :: regex where
  "scale_re =
     seqs [Bol, Grp 1 (Star (Atom Space)), Grp 2 qty,
           Opt (Grp 3 (seqs [Star (Atom Space), range_sep, Star (Atom Space), Grp 4 qty])),
           Grp 5 (Star (Atom AnyChar)), Eol]"

definition scaleLeadingQuantity :: "jsstring \<Rightarrow> number \<Rightarrow> jsstring" where
  "scaleLeadingQuantity line multiplier =
     (if line = [] \<or> \<not> isFinite multiplier \<or> multiplier = Fin 1 then line
      else
        (let normalized = normalizeFractions line in
         case re_match True scale_re normalized of
           None \<Rightarrow> line
         | Some m \<Rightarrow>
             (let prefix = group_or_empty m 1;
                  a = group_or_empty m 2;
                  b = group_or_empty m 4;
                  suffix = collapse_ws (group_or_empty m 5)
              in case parseQuantityToken a of
                   None \<Rightarrow> line
                 | Some aNum \<Rightarrow>
                     (let aScaled = formatQuantity (nmul aNum multiplier) in
                      if b \<noteq> [] then
                        (case parseQuantityToken b of
                           None \<Rightarrow> prefix @ aScaled @ suffix
                         | Some bNum \<Rightarrow>
                             (let bScaled = formatQuantity (nmul bNum multiplier);
                                  sep0 = trim (replace_substr b [] (group_or_empty m 3));
                                  sep = (if sep0 = [] then [45] else sep0)
                              in trim (collapse_ws
                                   (prefix @ aScaled @ [32] @ sep @ [32] @ bScaled @ suffix))))
                      else trim (collapse_ws (prefix @ aScaled @ suffix))))))"

text \<open>
  The fields of the client's \<open>Recipe\<close> that \<open>scaleServingsLabel\<close> reads; \<open>None\<close> is a
  field that is null or undefined.
\<close>

record web_recipe =
  servings :: "number option"
  servingsText :: "jsstring option"

text \<open>
  The patterns of \<open>scaleServingsLabel\<close>: \<open>/(qty)/g\<close>, \<open>/^\d/\<close>,
  \<open>/\bservings?\b/i\<close>, \<open>/servings?\b/i\<close> and \<open>/^\s*serves\b/i\<close>.
\<close>

definition qtyRe :: regex where
  "qtyRe = Grp 1 qty"

definition leading_digit_re :: regex where
  "leading_digit_re = seqs [Bol, Atom Digit]"

definition servings_word_re :: regex where
  "servings_word_re = seqs [WordB, lits ''serving'', Opt (Atom (Lit 115)), WordB]"

definition servings_end_re :: regex where
  "servings_end_re = seqs [lits ''serving'', Opt (Atom (Lit 115)), WordB]"

definition serves_start_re :: regex where
  "serves_start_re = seqs [Bol, Star (Atom Space), lits ''serves'', WordB]"

definition scale_two :: "number \<Rightarrow> nat \<Rightarrow> rmatch_result \<Rightarrow> jsstring \<times> nat" where
  "scale_two multiplier count m =
     (let raw = matched m in
      if 2 \<le> count then (raw, count)
      else (case parseQuantityToken raw of
              None \<Rightarrow> (raw, count)
            | Some n \<Rightarrow> (formatQuantity (nmul n multiplier), count + 1)))"

definition scaleServingsLabel :: "web_recipe \<Rightarrow> number \<Rightarrow> jsstring option" where
  "scaleServingsLabel recipe multiplier =
     (let baseText = trim (case servingsText recipe of None \<Rightarrow> [] | Some t \<Rightarrow> t);
          baseNum = (case servings recipe of
                       None \<Rightarrow> None
                     | Some n \<Rightarrow> if isFinite n then Some n else None)
      in if baseText = [] \<and> baseNum = None then None
         else if baseText \<noteq> [] then
           (let normalized = normalizeFractions baseText;
                replaced = fst (replace_all_from False qtyRe (scale_two multiplier) 0 0 None normalized);
                label = trim replaced
            in if re_test False leading_digit_re label
               then Some (str ''Serves '' @ trim (re_replace True servings_word_re (\<lambda>m. []) label))
               else if re_test True servings_end_re label \<and> \<not> re_test True serves_start_re label
               then (let l = trim (re_replace True servings_word_re (\<lambda>m. []) label)
                     in Some (if l \<noteq> [] then str ''Serves '' @ l else str ''Serves''))
               else Some label)
         else Some (str ''Serves ''
                    @ formatQuantity (nmul (case baseNum of None \<Rightarrow> Fin 0 | Some n \<Rightarrow> n) multiplier)))"


section \<open>The rendering rule in the words of the specification\<close>

text \<open>
  What the specification says of \<open>formatQuantity\<close>, to be compared with the code: a
  value is near an integer when it is within \<open>1e-9\<close> of the nearest one, near an eighth
  when it is within \<open>0.02\<close> of the nearest multiple of \<open>1/8\<close>; an eighth \<open>k/8\<close> is
  rendered as its whole part \<open>k div 8\<close> and the fraction \<open>(k mod 8)/8\<close> reduced by the
  greatest common divisor, the whole part alone when the fraction is zero and the
  fraction alone when the whole part is zero.
\<close>

definition near_integer :: "rat \<Rightarrow> bool" where
  "near_integer v = (\<bar>v - of_int (round v)\<bar> < 1 / 10 ^ 9)"




text \<open>
  The servings text of a recipe, empty when the field is null or undefined, and whether
  its servings field is a finite number.
\<close>

definition servings_text :: "web_recipe \<Rightarrow> jsstring" where
  "servings_text r = (case servingsText r of None \<Rightarrow> [] | Some t \<Rightarrow> t)"

definition finite_servings :: "web_recipe \<Rightarrow> bool" where
  "finite_servings r = (case servings r of None \<Rightarrow> False | Some n \<Rightarrow> isFinite n)"

section \<open>The words a pattern consumes\<close>

text \<open>
  The words a pattern can consume, without its assertions and captures: what a
  successful run of the matcher has consumed is one of them. \<open>star A\<close> holds of the
  concatenations of words of \<open>A\<close>.
\<close>

inductive star :: "(jsstring \<Rightarrow> bool) \<Rightarrow> jsstring \<Rightarrow> bool" for A where
  star_nil: "star A []"
| star_app: "A u \<Longrightarrow> star A v \<Longrightarrow> star A (u @ v)"

primrec accepts :: "bool \<Rightarrow> regex \<Rightarrow> jsstring \<Rightarrow> bool" where
  "accepts ic (Atom a) w = (\<exists>c. w = [c] \<and> atom_matches ic a c)"
| "accepts ic Eps w = (w = [])"
| "accepts ic Bol w = (w = [])"
| "accepts ic Eol w = (w = [])"
| "accepts ic WordB w = (w = [])"
| "accepts ic (Seq r1 r2) w = (\<exists>u v. w = u @ v \<and> accepts ic r1 u \<and> accepts ic r2 v)"
| "accepts ic (Alt r1 r2) w = (accepts ic r1 w \<or> accepts ic r2 w)"
| "accepts ic (Star r) w = star (accepts ic r) w"
| "accepts ic (Plus r) w = (\<exists>u v. w = u @ v \<and> accepts ic r u \<and> star (accepts ic r) v)"
| "accepts ic (Opt r) w = (w = [] \<or> accepts ic r w)"
| "accepts ic (Grp n r) w = accepts ic r w"





section \<open>Evaluation\<close>

text \<open>
  The definitions are evaluated on concrete inputs by the simplifier. These are the
  rules it needs beyond the definitions: the floor of a rational numeral and the
  unfolding of a numeral bound of \<open>sig_digits\<close>.
\<close>

lemma floor_rat_numeral [simp]:
  "\<lfloor>numeral a / numeral b :: rat\<rfloor> = numeral a div numeral b"
  by (metis floor_divide_of_int_eq of_int_numeral)

lemma floor_rat_neg_numeral [simp]:
  "\<lfloor>- (numeral a / numeral b :: rat)\<rfloor> = - numeral a div numeral b"
  by (metis floor_divide_of_int_eq of_int_numeral of_int_minus minus_divide_left)

lemma floor_rat_one_numeral [simp]:
  "\<lfloor>1 / numeral b :: rat\<rfloor> = 1 div numeral b"
  by (metis floor_divide_of_int_eq of_int_numeral of_int_1)

lemma sig_digits_numeral [simp]:
  "sig_digits (numeral n) z =
     (let d = \<lfloor>z\<rfloor>; r = z - of_int d
      in if r = 0 then [d] else d # sig_digits (pred_numeral n) (r * 10))"
  by (simp add: numeral_eq_Suc)

lemmas string_defs =
  str_def isWhiteSpace_def isLineTerminator_def isDigit_def isWordChar_def trim_def
  trimStart_def

lemmas regex_defs =
  canonicalize_def isWordOpt_def nextUnit_def seqs_def lits_def grp_def match_here_def
  re_match_def re_test_def re_replace_def re_replace_all_def group_or_empty_def

lemmas number_defs =
  overflow_bound_def to_number_def Math_round_def digit_char_def pos_to_string_def
  int_to_string_def digits_value_def Number_of_def magnitude.simps dec_digits.simps
  gcd_loop.simps

lemmas quantity_defs =
  UNICODE_FRACTIONS_def fraction_glyphs_def ws_run_def collapse_ws_def
  normalizeFractions_def gcd_js_def zero_fraction_re_def trailing_zeros_re_def
  trim_decimal_def formatQuantity_def digits1_def mixed_re_def frac_re_def dec_re_def
  Number_group_def parse_mixed_def parse_frac_def parse_dec_def parseQuantityToken_def
  qty_def range_sep_def scale_re_def scaleLeadingQuantity_def qtyRe_def leading_digit_re_def
  servings_word_re_def servings_end_re_def serves_start_re_def scale_two_def
  scaleServingsLabel_def

lemmas eval_defs = string_defs regex_defs number_defs quantity_defs Let_def

section \<open>The identity cases of scaleLeadingQuantity\<close>

text \<open>
  Claim C6. For every line, \<open>scaleLeadingQuantity\<close> returns the line itself when the
  multiplier is exactly 1 and when it is not finite (NaN, Infinity or -Infinity).
\<close>

theorem scaleLeadingQuantity_noop:
  "scaleLeadingQuantity line (Fin 1) = line
   \<and> scaleLeadingQuantity line NaN = line
   \<and> scaleLeadingQuantity line PosInf = line
   \<and> scaleLeadingQuantity line NegInf = line"
  by (simp add: scaleLeadingQuantity_def)

theorem scaleLeadingQuantity_noop_witness:
  "scaleLeadingQuantity (str ''2 cups flour'') (Fin 1) = str ''2 cups flour''
   \<and> scaleLeadingQuantity (str ''2 cups flour'') NaN = str ''2 cups flour''
   \<and> scaleLeadingQuantity (str ''2 cups flour'') PosInf = str ''2 cups flour''
   \<and> scaleLeadingQuantity (str ''2 cups flour'') NegInf = str ''2 cups flour''"
  using scaleLeadingQuantity_noop [of "str ''2 cups flour''"] by simp

section \<open>parseQuantityToken\<close>








section \<open>formatQuantity\<close>

text \<open>
  The nearest integer is the one the code tests, and the loop of \<open>gcd\<close> computes the
  greatest common divisor.
\<close>

lemma near_integer_exists: "near_integer v \<longleftrightarrow> (\<exists>n::int. \<bar>v - of_int n\<bar> < 1 / 10 ^ 9)"
proof
  assume "near_integer v" then show "\<exists>n::int. \<bar>v - of_int n\<bar> < 1 / 10 ^ 9"
    unfolding near_integer_def by blast
next
  assume "\<exists>n::int. \<bar>v - of_int n\<bar> < 1 / 10 ^ 9"
  then obtain n :: int where n: "\<bar>v - of_int n\<bar> < 1 / 10 ^ 9" by blast
  have "\<bar>v - of_int (round v)\<bar> \<le> \<bar>v - of_int n\<bar>"
    using round_diff_minimal [of v n] by (simp add: abs_minus_commute)
  with n show "near_integer v" unfolding near_integer_def by linarith
qed















section \<open>scaleServingsLabel\<close>

lemma scaleServingsLabel_null:
  "scaleServingsLabel r m = None \<longleftrightarrow> trim (servings_text r) = [] \<and> \<not> finite_servings r"
  by (auto simp add: scaleServingsLabel_def servings_text_def finite_servings_def Let_def
      split: option.splits if_splits)

lemma scaleServingsLabel_number:
  "trim (servings_text r) = [] \<Longrightarrow> servings r = Some n \<Longrightarrow> isFinite n \<Longrightarrow>
   scaleServingsLabel r m = Some (str ''Serves '' @ formatQuantity (nmul n m))"
  by (simp add: scaleServingsLabel_def servings_text_def Let_def split: option.splits)

text \<open>
  Claim C8, as amended. \<open>scaleServingsLabel\<close> returns null exactly when the recipe
  has neither a finite numeric servings value nor servings text that is non-empty after
  trimming; and when only the numeric field exists (the text absent or blank), it
  returns \<open>Serves\<close>, a space and \<open>formatQuantity\<close> of servings times multiplier, so
  4 servings at multiplier 2 give \<open>Serves 8\<close>.
\<close>

theorem scaleServingsLabel_spec:
  "(\<forall>r m. scaleServingsLabel r m = None
           \<longleftrightarrow> trim (servings_text r) = [] \<and> \<not> finite_servings r)
   \<and> (\<forall>r m n. trim (servings_text r) = [] \<and> servings r = Some n \<and> isFinite n
          \<longrightarrow> scaleServingsLabel r m = Some (str ''Serves '' @ formatQuantity (nmul n m)))
   \<and> scaleServingsLabel \<lparr>servings = Some (Fin 4), servingsText = None\<rparr> (Fin 2)
       = Some (str ''Serves 8'')"
proof -
  have e: "scaleServingsLabel \<lparr>servings = Some (Fin 4), servingsText = None\<rparr> (Fin 2)
           = Some (str ''Serves 8'')"
    by (simp add: eval_defs)
  show ?thesis using scaleServingsLabel_null scaleServingsLabel_number e by blast
qed

theorem scaleServingsLabel_spec_witness:
  "trim (servings_text \<lparr>servings = Some (Fin 4), servingsText = Some (str ''  '')\<rparr>) = []
   \<and> isFinite (Fin 4)
   \<and> scaleServingsLabel \<lparr>servings = Some (Fin 4), servingsText = Some (str ''  '')\<rparr> (Fin (1 / 2))
       = Some (str ''Serves '' @ formatQuantity (nmul (Fin 4) (Fin (1 / 2))))
   \<and> formatQuantity (nmul (Fin 4) (Fin (1 / 2))) = str ''2''
   \<and> scaleServingsLabel \<lparr>servings = Some NaN, servingsText = None\<rparr> (Fin 2) = None"
proof -
  let ?r = "\<lparr>servings = Some (Fin 4), servingsText = Some (str ''  '')\<rparr>"
  have t: "trim (servings_text ?r) = []" by (simp add: servings_text_def eval_defs)
  have s: "servings ?r = Some (Fin 4)" by simp
  have f: "formatQuantity (nmul (Fin 4) (Fin (1 / 2))) = str ''2''" by (simp add: eval_defs)
  have n: "trim (servings_text \<lparr>servings = Some NaN, servingsText = None\<rparr>) = []
           \<and> \<not> finite_servings \<lparr>servings = Some NaN, servingsText = None\<rparr>"
    by (simp add: servings_text_def finite_servings_def eval_defs)
  have i: "isFinite (Fin 4)" by simp
  from scaleServingsLabel_spec
  have g: "trim (servings_text ?r) = [] \<and> servings ?r = Some (Fin 4) \<and> isFinite (Fin 4)
           \<longrightarrow> scaleServingsLabel ?r (Fin (1 / 2))
               = Some (str ''Serves '' @ formatQuantity (nmul (Fin 4) (Fin (1 / 2))))"
    by blast
  from scaleServingsLabel_spec
  have h: "scaleServingsLabel \<lparr>servings = Some NaN, servingsText = None\<rparr> (Fin 2) = None
           \<longleftrightarrow> trim (servings_text \<lparr>servings = Some NaN, servingsText = None\<rparr>) = []
               \<and> \<not> finite_servings \<lparr>servings = Some NaN, servingsText = None\<rparr>"
    by blast
  from g h t s i f n show ?thesis by blast
qed

text \<open>
  The claim as stated fails for a servings text of one space and no servings number:
  the text is not empty and the result is null.
\<close>

theorem scaleServingsLabel_blank_text:
  "servingsText \<lparr>servings = None, servingsText = Some (str '' '')\<rparr> = Some [32]
   \<and> scaleServingsLabel \<lparr>servings = None, servingsText = Some (str '' '')\<rparr> (Fin 2) = None"
  by (simp add: eval_defs)

section \<open>Soundness of the matcher\<close>








section \<open>scaleLeadingQuantity\<close>






lemma star_space_ws: "star (accepts ic (Atom Space)) w \<Longrightarrow> list_all isWhiteSpace w"
  by (induction rule: star.induct) auto

lemma accepts_spaces: "accepts ic (Star (Atom Space)) w \<Longrightarrow> list_all isWhiteSpace w"
  by (simp add: star_space_ws)


lemma canonicalize_upper:
  "canonicalize True c = 84 \<longleftrightarrow> c = 84 \<or> c = 116"
  "canonicalize True c = 79 \<longleftrightarrow> c = 79 \<or> c = 111"
  by (auto simp add: canonicalize_def)












end
